theory Spec2Isabelle
  imports Complex_Main "HOL-Library.Log_Nat"
begin

section \<open>Python values used by Article\_Summarizer.py\<close>

text \<open>
  A raised Python exception is a value: its class name and the text that \<open>str(e)\<close>
  gives. Every function below that can raise returns \<open>pyexc + 'a\<close>, with \<open>Inl\<close>
  for the exception.
\<close>

datatype pyexc = PyExc (exc_class: string) (exc_str: string)

definition IndexError :: pyexc where
  "IndexError = PyExc ''IndexError'' ''list index out of range''"

definition KeyError :: "string \<Rightarrow> pyexc" where
  "KeyError k = PyExc ''KeyError'' ([CHR 0x27] @ k @ [CHR 0x27])"

definition ZeroDivisionError :: pyexc where
  "ZeroDivisionError = PyExc ''ZeroDivisionError'' ''division by zero''"

definition OverflowError :: pyexc where
  "OverflowError = PyExc ''OverflowError'' ''integer division result too large for a float''"

text \<open>
  Reading a local variable that no branch has assigned raises \<open>UnboundLocalError\<close>
  (message of CPython 3.11 and later).
\<close>

definition UnboundLocalError :: "string \<Rightarrow> pyexc" where
  "UnboundLocalError v =
     PyExc ''UnboundLocalError''
       (''cannot access local variable '' @ [CHR 0x27] @ v @ [CHR 0x27]
          @ '' where it is not associated with a value'')"

subsection \<open>String operations\<close>

text \<open>\<open>s.split(c)\<close> for a one-character separator: never empty, keeps empty pieces.\<close>

fun split_chr :: "char \<Rightarrow> string \<Rightarrow> string list" where
  "split_chr c [] = ['''']"
| "split_chr c (x # xs) =
     (if x = c then [] # split_chr c xs
      else (let r = split_chr c xs in (x # hd r) # tl r))"

text \<open>\<open>xs[i]\<close> for a non-negative literal index.\<close>

definition py_index :: "'a list \<Rightarrow> nat \<Rightarrow> pyexc + 'a" where
  "py_index xs i = (if i < length xs then Inr (xs ! i) else Inl IndexError)"

text \<open>\<open>s.lower()\<close> on ASCII text.\<close>

definition lower_chr :: "char \<Rightarrow> char" where
  "lower_chr c =
     (let n = (of_char c :: nat) in if 65 \<le> n \<and> n \<le> 90 then char_of (n + 32) else c)"

definition lower :: "string \<Rightarrow> string" where
  "lower s = map lower_chr s"

text \<open>\<open>p in s\<close> on strings: \<open>p\<close> occurs in \<open>s\<close> as a contiguous piece.\<close>

fun starts_with :: "string \<Rightarrow> string \<Rightarrow> bool" where
  "starts_with [] s = True"
| "starts_with (p # ps) [] = False"
| "starts_with (p # ps) (c # cs) = (p = c \<and> starts_with ps cs)"

fun contains :: "string \<Rightarrow> string \<Rightarrow> bool" where
  "contains p [] = (p = [])"
| "contains p (c # cs) = (starts_with p (c # cs) \<or> contains p cs)"

text \<open>\<open>sep.join(xs)\<close>.\<close>

fun join :: "string \<Rightarrow> string list \<Rightarrow> string" where
  "join sep [] = []"
| "join sep [x] = x"
| "join sep (x # y # ys) = x @ sep @ join sep (y # ys)"

section \<open>The external capabilities\<close>

text \<open>
  The program calls sumy, transformers, newspaper and nltk. Their code is not part of
  the program, so each call the program makes is a field of the environment: what the
  call returns, or the exception it raises. \<open>'p\<close> is the sumy parser object, \<open>'d\<close> its
  document, \<open>'a\<close> a newspaper article object, \<open>'m\<close> a loaded transformers pipeline.
  The four summarizer fields stand for constructing the summarizer and calling it on a
  document and a sentence count; they return the selected sentences, each already
  converted by \<open>str\<close>. The constructors alone (\<open>LsaSummarizer()\<close> and the like, and
  \<open>Article(url)\<close>) are taken not to raise.
\<close>

record ('p, 'd, 'a, 'm) env =
  from_string :: "string \<Rightarrow> pyexc + 'p"
  document :: "'p \<Rightarrow> pyexc + 'd"
  LsaSummarizer :: "'d \<Rightarrow> int \<Rightarrow> pyexc + string list"
  LexRankSummarizer :: "'d \<Rightarrow> int \<Rightarrow> pyexc + string list"
  LuhnSummarizer :: "'d \<Rightarrow> int \<Rightarrow> pyexc + string list"
  TextRankSummarizer :: "'d \<Rightarrow> int \<Rightarrow> pyexc + string list"
  pipeline :: "pyexc + 'm"
  run_pipeline :: "'m \<Rightarrow> string \<Rightarrow> int \<Rightarrow> int \<Rightarrow> pyexc + ((string \<times> string) list) list"
  Article :: "string \<Rightarrow> 'a"
  download :: "'a \<Rightarrow> pyexc + 'a"
  parse :: "'a \<Rightarrow> pyexc + 'a"
  article_text :: "'a \<Rightarrow> string"
  word_tokenize :: "string \<Rightarrow> pyexc + string list"
  time_start :: rat
  time_end :: rat

section \<open>Summarization functions\<close>

text \<open>
  The \<open>if\<close>/\<open>elif\<close> chain of \<open>sumy_summarizer\<close> (lines 23 to 30). It has no
  \<open>else\<close>: with any other tag the local variable \<open>summarizer\<close> stays unassigned,
  which is \<open>None\<close> here.
\<close>

definition select_summarizer ::
  "('p, 'd, 'a, 'm) env \<Rightarrow> string \<Rightarrow> ('d \<Rightarrow> int \<Rightarrow> pyexc + string list) option" where
  "select_summarizer E summarizer_type =
     (if summarizer_type = ''lsa'' then Some (LsaSummarizer E)
      else if summarizer_type = ''lex'' then Some (LexRankSummarizer E)
      else if summarizer_type = ''luhn'' then Some (LuhnSummarizer E)
      else if summarizer_type = ''textrank'' then Some (TextRankSummarizer E)
      else None)"

text \<open>
  \<open>sumy_summarizer(text, summarizer_type, sentences_count)\<close>. Line 31 evaluates the
  name \<open>summarizer\<close> before its argument \<open>parser.document\<close>, so an unassigned
  \<open>summarizer\<close> raises before the document is built.
\<close>

definition sumy_summarizer ::
  "('p, 'd, 'a, 'm) env \<Rightarrow> string \<Rightarrow> string \<Rightarrow> int \<Rightarrow> pyexc + string" where
  "sumy_summarizer E text summarizer_type sentences_count =
     (case from_string E text of
        Inl e \<Rightarrow> Inl e
      | Inr parser \<Rightarrow>
          (case select_summarizer E summarizer_type of
             None \<Rightarrow> Inl (UnboundLocalError ''summarizer'')
           | Some summarizer \<Rightarrow>
               (case document E parser of
                  Inl e \<Rightarrow> Inl e
                | Inr doc \<Rightarrow>
                    (case summarizer doc sentences_count of
                       Inl e \<Rightarrow> Inl e
                     | Inr summary \<Rightarrow> Inr (join '' '' summary)))))"

text \<open>
  \<open>abstractive_summarizer(text, max_length, min_length)\<close>: loads the pipeline, runs it,
  and reads \<open>[0]['summary_text']\<close> of the result (a list of dictionaries).
\<close>

definition abstractive_summarizer ::
  "('p, 'd, 'a, 'm) env \<Rightarrow> string \<Rightarrow> int \<Rightarrow> int \<Rightarrow> pyexc + string" where
  "abstractive_summarizer E text max_length min_length =
     (case pipeline E of
        Inl e \<Rightarrow> Inl e
      | Inr summarizer \<Rightarrow>
          (case run_pipeline E summarizer text max_length min_length of
             Inl e \<Rightarrow> Inl e
           | Inr out \<Rightarrow>
               (case py_index out 0 of
                  Inl e \<Rightarrow> Inl e
                | Inr d \<Rightarrow>
                    (case map_of d ''summary_text'' of
                       None \<Rightarrow> Inl (KeyError ''summary_text'')
                     | Some s \<Rightarrow> Inr s))))"

text \<open>\<open>get_article_text(url)\<close>.\<close>

definition get_article_text :: "('p, 'd, 'a, 'm) env \<Rightarrow> string \<Rightarrow> pyexc + string" where
  "get_article_text E url =
     (case download E (Article E url) of
        Inl e \<Rightarrow> Inl e
      | Inr article \<Rightarrow>
          (case parse E article of
             Inl e \<Rightarrow> Inl e
           | Inr article' \<Rightarrow> Inr (article_text E article')))"

section \<open>Python floats\<close>

text \<open>
  A Python float is an IEEE 754 double: a sign with a magnitude, an infinity, or not a
  number. The magnitude of a finite double is kept as the rational it is; \<open>True\<close> is
  the minus sign, which zero has too.
\<close>

datatype pyfloat = FloatFin bool rat | FloatInf bool | FloatNaN

definition pow2 :: "int \<Rightarrow> rat" where
  "pow2 k = (if 0 \<le> k then 2 ^ nat k else 1 / 2 ^ nat (- k))"

text \<open>The exponent of a positive rational: \<open>2 ^ e \<le> x < 2 ^ (e + 1)\<close>.\<close>

definition ilog2 :: "rat \<Rightarrow> int" where
  "ilog2 x =
     (case quotient_of x of
        (p, q) \<Rightarrow> (let k = bitlen p - bitlen q in if pow2 k \<le> x then k else k - 1))"

text \<open>Rounding to the nearest integer, a tie to the even one.\<close>

definition round_even :: "rat \<Rightarrow> int" where
  "round_even x =
     (let f = \<lfloor>x\<rfloor>; d = x - of_int f
      in if d < 1 / 2 then f else if 1 / 2 < d then f + 1 else if even f then f else f + 1)"

text \<open>
  Rounding a magnitude to the nearest double, a tie to the even one: 53 significant
  bits, and below \<open>2 ^ -1022\<close> the fixed spacing \<open>2 ^ -1074\<close> of the subnormal numbers.
  A result of \<open>2 ^ 1024\<close> or more is beyond the largest double.
\<close>

definition round_mag :: "rat \<Rightarrow> rat" where
  "round_mag x =
     (if x = 0 then 0
      else (let k = max (ilog2 x - 52) (- 1074)
            in of_int (round_even (x / pow2 k)) * pow2 k))"

text \<open>
  \<open>a / b\<close> on two \<open>int\<close>: the quotient rounded once, \<open>ZeroDivisionError\<close> for
  \<open>b = 0\<close>, \<open>OverflowError\<close> when the result is too large.
\<close>

definition true_divide :: "int \<Rightarrow> int \<Rightarrow> pyexc + pyfloat" where
  "true_divide a b =
     (if b = 0 then Inl ZeroDivisionError
      else (let m = round_mag (\<bar>of_int a\<bar> / \<bar>of_int b\<bar>)
            in if pow2 1024 \<le> m then Inl OverflowError
               else Inr (FloatFin ((a < 0) \<noteq> (b < 0)) m)))"

text \<open>\<open>f * g\<close> on two floats: it never raises, too large a product is an infinity.\<close>

fun float_mul :: "pyfloat \<Rightarrow> pyfloat \<Rightarrow> pyfloat" where
  "float_mul (FloatFin n1 m1) (FloatFin n2 m2) =
     (let m = round_mag (m1 * m2)
      in if pow2 1024 \<le> m then FloatInf (n1 \<noteq> n2) else FloatFin (n1 \<noteq> n2) m)"
| "float_mul (FloatInf n1) (FloatFin n2 m2) =
     (if m2 = 0 then FloatNaN else FloatInf (n1 \<noteq> n2))"
| "float_mul (FloatFin n1 m1) (FloatInf n2) =
     (if m1 = 0 then FloatNaN else FloatInf (n1 \<noteq> n2))"
| "float_mul (FloatInf n1) (FloatInf n2) = FloatInf (n1 \<noteq> n2)"
| "float_mul FloatNaN g = FloatNaN"
| "float_mul f FloatNaN = FloatNaN"

text \<open>
  The format \<open>.1f\<close>: the exact value of the double rounded to tenths, a tie to the even
  one, printed with its sign, its integer part and one decimal.
\<close>

fun show_nat :: "nat \<Rightarrow> string" where
  "show_nat n =
     (if n < 10 then [char_of (48 + n)] else show_nat (n div 10) @ [char_of (48 + n mod 10)])"

definition tenths :: "rat \<Rightarrow> nat" where
  "tenths m = nat (round_even (m * 10))"

fun format_1f :: "pyfloat \<Rightarrow> string" where
  "format_1f (FloatFin neg m) =
     (if neg then ''-'' else []) @ show_nat (tenths m div 10) @ ''.''
       @ show_nat (tenths m mod 10)"
| "format_1f (FloatInf neg) = (if neg then ''-inf'' else ''inf'')"
| "format_1f FloatNaN = ''nan''"

section \<open>The Streamlit shell\<close>

text \<open>
  One run of \<open>main()\<close> reads the widgets and renders elements. The values the widgets
  return in that run are the record \<open>ui\<close>: \<open>selectbox\<close> is given the options and
  returns the selected one, \<open>slider\<close> is given \<open>min_value\<close>, \<open>max_value\<close> and
  \<open>value\<close> and returns the selected number.
\<close>

record ui =
  radio :: string
  text_area :: string
  text_input :: string
  selectbox :: "string list \<Rightarrow> string"
  slider :: "int \<Rightarrow> int \<Rightarrow> int \<Rightarrow> int"
  button :: bool

text \<open>
  What a run does, in order: the elements it renders and the calls it makes to the three
  functions above. The headings of \<open>st.subheader\<close> are a datatype (two of them start
  with an emoji). \<open>Success\<close> carries the four statistics: original word count, summary
  word count, the percentage reduction as the text that \<open>{ratio:.1f}\<close> prints, and the
  elapsed seconds, the difference of the two clock readings as a rational, its two-decimal
  formatting left out.
\<close>

datatype heading = SummarizationOptions | ExtractiveSummary | AbstractiveSummary

datatype event =
    SetPageConfig
  | Title
  | Markdown
  | Radio "string list"
  | TextArea string string
  | TextInput string
  | Spinner string
  | Subheader heading
  | Columns nat
  | Selectbox "string list"
  | Slider int int int
  | Button string
  | Write string
  | Success int int string rat
  | Error string
  | Call_get_article_text string
  | Call_sumy_summarizer string string int
  | Call_abstractive_summarizer string int int

fun is_summarizer_call :: "event \<Rightarrow> bool" where
  "is_summarizer_call (Call_sumy_summarizer t m n) = True"
| "is_summarizer_call (Call_abstractive_summarizer t a b) = True"
| "is_summarizer_call ev = False"

fun is_option_widget :: "event \<Rightarrow> bool" where
  "is_option_widget (Selectbox os) = True"
| "is_option_widget (Slider a b c) = True"
| "is_option_widget (Button l) = True"
| "is_option_widget (Subheader h) = True"
| "is_option_widget ev = False"

definition summary_types :: "string list" where
  "summary_types =
     [''Extractive (LSA)'', ''Extractive (LexRank)'', ''Extractive (Luhn)'',
      ''Extractive (TextRank)'', ''Abstractive (BART)'']"

text \<open>Line 98: \<open>summary_type.split("(")[1].split(")")[0].lower()\<close>.\<close>

definition method_of :: "string \<Rightarrow> pyexc + string" where
  "method_of summary_type =
     (case py_index (split_chr CHR ''('' summary_type) 1 of
        Inl e \<Rightarrow> Inl e
      | Inr a \<Rightarrow>
          (case py_index (split_chr CHR '')'' a) 0 of
             Inl e \<Rightarrow> Inl e
           | Inr b \<Rightarrow> Inr (lower b)))"

text \<open>
  Line 110: \<open>(orig_words - summ_words) / orig_words * 100\<close>. The subtraction is on
  \<open>int\<close>, the division is the true division of two \<open>int\<close>, and the product is the
  float product with \<open>100\<close> converted to the float \<open>100.0\<close>.
\<close>

definition reduction_ratio :: "int \<Rightarrow> int \<Rightarrow> pyexc + pyfloat" where
  "reduction_ratio orig_words summ_words =
     (case true_divide (orig_words - summ_words) orig_words of
        Inl e \<Rightarrow> Inl e
      | Inr q \<Rightarrow> Inr (float_mul q (FloatFin False 100)))"

text \<open>
  The body of the \<open>try\<close> block is in two parts. Each returns what it has rendered and
  called so far, and either a value or the exception that ended the block there.
  Lines 97 to 103: choose and call the summarizer, then render the heading.
\<close>

definition summarize ::
  "('p, 'd, 'a, 'm) env \<Rightarrow> string \<Rightarrow> string \<Rightarrow> int \<Rightarrow> event list \<times> (pyexc + string)" where
  "summarize E text summary_type len =
     (if contains ''Extractive'' summary_type then
        (case method_of summary_type of
           Inl e \<Rightarrow> ([], Inl e)
         | Inr method \<Rightarrow>
             (case sumy_summarizer E text method len of
                Inl e \<Rightarrow> ([Call_sumy_summarizer text method len], Inl e)
              | Inr summary \<Rightarrow>
                  ([Call_sumy_summarizer text method len, Subheader ExtractiveSummary],
                   Inr summary)))
      else
        (case abstractive_summarizer E text (len * 30) 30 of
           Inl e \<Rightarrow> ([Call_abstractive_summarizer text (len * 30) 30], Inl e)
         | Inr summary \<Rightarrow>
             ([Call_abstractive_summarizer text (len * 30) 30, Subheader AbstractiveSummary],
              Inr summary)))"

text \<open>Lines 105 to 118: render the summary, then compute and render the statistics.\<close>

definition stats ::
  "('p, 'd, 'a, 'm) env \<Rightarrow> string \<Rightarrow> string \<Rightarrow> event list \<times> (pyexc + unit)" where
  "stats E text summary =
     (case word_tokenize E text of
        Inl e \<Rightarrow> ([Write summary], Inl e)
      | Inr ow \<Rightarrow>
          (case word_tokenize E summary of
             Inl e \<Rightarrow> ([Write summary], Inl e)
           | Inr sw \<Rightarrow>
               (let orig_words = int (length ow); summ_words = int (length sw) in
                case reduction_ratio orig_words summ_words of
                  Inl e \<Rightarrow> ([Write summary], Inl e)
                | Inr ratio \<Rightarrow>
                    ([Write summary,
                      Success orig_words summ_words (format_1f ratio)
                        (time_end E - time_start E)],
                     Inr ()))))"

text \<open>
  Lines 94 to 121: the \<open>try\<close> block and its handler, which renders \<open>str(e)\<close> after
  whatever the block had rendered before it raised.
\<close>

definition generate ::
  "('p, 'd, 'a, 'm) env \<Rightarrow> string \<Rightarrow> string \<Rightarrow> int \<Rightarrow> event list" where
  "generate E text summary_type len =
     (case summarize E text summary_type len of
        (evs, Inl e) \<Rightarrow> evs @ [Error (''Error: '' @ exc_str e)]
      | (evs, Inr summary) \<Rightarrow>
          (case stats E text summary of
             (evs', Inl e) \<Rightarrow> evs @ evs' @ [Error (''Error: '' @ exc_str e)]
           | (evs', Inr u) \<Rightarrow> evs @ evs'))"

text \<open>Lines 58 to 71: the input text of the run, and what acquiring it renders.\<close>

definition acquire :: "('p, 'd, 'a, 'm) env \<Rightarrow> ui \<Rightarrow> string \<times> event list" where
  "acquire E U =
     (if radio U = ''Text'' then
        (text_area U, [TextArea ''Paste your article text here:'' (text_area U)])
      else
        (let url = text_input U in
         if url \<noteq> [] then
           (case get_article_text E url of
              Inr text \<Rightarrow>
                (text,
                 [TextInput ''Enter article URL:'', Spinner ''Fetching article...'',
                  Call_get_article_text url, TextArea ''Extracted Text:'' text])
            | Inl e \<Rightarrow>
                ([],
                 [TextInput ''Enter article URL:'', Spinner ''Fetching article...'',
                  Call_get_article_text url, Error (''Error: '' @ exc_str e)]))
         else ([], [TextInput ''Enter article URL:''])))"

text \<open>Lines 73 to 121: rendered only when the text is not empty.\<close>

definition options :: "('p, 'd, 'a, 'm) env \<Rightarrow> ui \<Rightarrow> string \<Rightarrow> event list" where
  "options E U text =
     (if text \<noteq> [] then
        (let summary_type = selectbox U summary_types;
             len = slider U 1 10 5
         in [Subheader SummarizationOptions, Columns 2, Selectbox summary_types,
             Slider 1 10 5, Button ''Generate Summary'']
            @ (if button U
               then Spinner ''Generating summary...'' # generate E text summary_type len
               else []))
      else [])"

definition page_head :: "event list" where
  "page_head = [SetPageConfig, Title, Markdown, Radio [''Text'', ''URL'']]"

definition main :: "('p, 'd, 'a, 'm) env \<Rightarrow> ui \<Rightarrow> event list" where
  "main E U = (case acquire E U of (text, evs) \<Rightarrow> page_head @ evs @ options E U text)"

section \<open>A small environment to run the program on\<close>

text \<open>
  Stand-ins for the libraries, for running the definitions on concrete inputs: words
  are the non-empty pieces between blanks, sentences the pieces between full stops that
  hold a word, every ranking method keeps the first sentences, and only URLs starting
  with \<open>http\<close> can be fetched.
\<close>

definition words_ws :: "string \<Rightarrow> string list" where
  "words_ws s = filter (\<lambda>w. w \<noteq> []) (split_chr CHR '' '' s)"

definition sentences_ws :: "string \<Rightarrow> string list" where
  "sentences_ws s = filter (\<lambda>x. words_ws x \<noteq> []) (split_chr CHR ''.'' s)"

definition sample_env :: "(string, string list, string, unit) env" where
  "sample_env =
     \<lparr> from_string = (\<lambda>t. Inr t),
       document = (\<lambda>p. Inr (sentences_ws p)),
       LsaSummarizer = (\<lambda>d n. Inr (take (nat n) d)),
       LexRankSummarizer = (\<lambda>d n. Inr (take (nat n) d)),
       LuhnSummarizer = (\<lambda>d n. Inr (take (nat n) d)),
       TextRankSummarizer = (\<lambda>d n. Inr (take (nat n) d)),
       pipeline = Inr (),
       run_pipeline = (\<lambda>m t mx mn. Inr ([(''summary_text'', ''short'')] # [])),
       Article = (\<lambda>u. u),
       download = (\<lambda>a. if starts_with ''http'' a then Inr a
                        else Inl (PyExc ''ArticleException'' (''download failed on URL '' @ a))),
       parse = (\<lambda>a. Inr a),
       article_text = (\<lambda>a. ''One two. Three four.''),
       word_tokenize = (\<lambda>s. Inr (words_ws s)),
       time_start = 0,
       time_end = 1 / 2 \<rparr>"

definition sample_ui :: "string \<Rightarrow> string \<Rightarrow> string \<Rightarrow> string \<Rightarrow> int \<Rightarrow> bool \<Rightarrow> ui" where
  "sample_ui r ta ti st n b =
     \<lparr> radio = r, text_area = ta, text_input = ti,
       selectbox = (\<lambda>os. if st \<in> set os then st else hd os),
       slider = (\<lambda>lo hi v. max lo (min hi n)),
       button = b \<rparr>"

text \<open>
  What Streamlit promises of \<open>st.slider\<close>: started with a value inside its range, it
  returns a value inside its range.
\<close>

definition slider_contract :: "ui \<Rightarrow> bool" where
  "slider_contract U =
     (\<forall>lo hi v. lo \<le> v \<and> v \<le> hi \<longrightarrow> lo \<le> slider U lo hi v \<and> slider U lo hi v \<le> hi)"

section \<open>Properties\<close>

subsection \<open>Strategy tags\<close>

lemma method_of_LexRank: "method_of ''Extractive (LexRank)'' = Inr ''lexrank''"
  by code_simp

lemma method_of_others:
  "method_of ''Extractive (LSA)'' = Inr ''lsa''"
  "method_of ''Extractive (Luhn)'' = Inr ''luhn''"
  "method_of ''Extractive (TextRank)'' = Inr ''textrank''"
  by code_simp+

lemma contains_Extractive_LexRank: "contains ''Extractive'' ''Extractive (LexRank)''"
  by code_simp

lemma select_summarizer_unknown:
  "summarizer_type \<notin> {''lsa'', ''lex'', ''luhn'', ''textrank''} \<Longrightarrow>
   select_summarizer E summarizer_type = None"
  by (simp add: select_summarizer_def)

lemma sumy_summarizer_unassigned:
  "select_summarizer E summarizer_type = None \<Longrightarrow>
   sumy_summarizer E text summarizer_type n =
     Inl (case from_string E text of Inl e \<Rightarrow> e | Inr p \<Rightarrow> UnboundLocalError ''summarizer'')"
  by (simp add: sumy_summarizer_def split: sum.splits)

text \<open>
  Claim C1. Each of the four extractive options should give a tag that \<open>sumy_summarizer\<close>
  recognizes. The option \<open>Extractive (LexRank)\<close> gives the tag \<open>lexrank\<close>, while the
  function tests for \<open>lex\<close>: with any text and any length, generation with that option
  calls \<open>sumy_summarizer\<close>, which raises, and the run renders the error and no summary.
  The other three options give \<open>lsa\<close>, \<open>luhn\<close> and \<open>textrank\<close>, which are recognized
  (\<open>method_of_others\<close>).
\<close>

theorem lexrank_option_fails:
  "generate E text ''Extractive (LexRank)'' len =
     [Call_sumy_summarizer text ''lexrank'' len,
      Error (''Error: '' @ exc_str (case from_string E text of
                                      Inl e \<Rightarrow> e
                                    | Inr p \<Rightarrow> UnboundLocalError ''summarizer''))]"
proof -
  have "select_summarizer E ''lexrank'' = None"
    by (simp add: select_summarizer_def)
  then have "sumy_summarizer E text ''lexrank'' len =
     Inl (case from_string E text of Inl e \<Rightarrow> e | Inr p \<Rightarrow> UnboundLocalError ''summarizer'')"
    by (rule sumy_summarizer_unassigned)
  then show ?thesis
    by (simp add: generate_def summarize_def method_of_LexRank contains_Extractive_LexRank)
qed

text \<open>
  Claim C2, as stated: with a tag outside the four recognized ones the function fails with
  an exception of a class \<open>SummarizationError\<close>. The program defines no such class; at
  the tag \<open>lexrank\<close> the exception is Python's \<open>UnboundLocalError\<close>.
\<close>

theorem unknown_tag_not_SummarizationError:
  "''lexrank'' \<notin> {''lsa'', ''lex'', ''luhn'', ''textrank''} \<and>
   sumy_summarizer sample_env ''One two. Three four.'' ''lexrank'' 5
     = Inl (UnboundLocalError ''summarizer'') \<and>
   exc_class (UnboundLocalError ''summarizer'') \<noteq> ''SummarizationError''"
  by (simp add: sumy_summarizer_def select_summarizer_def sample_env_def UnboundLocalError_def)

text \<open>
  Claim C2, amended: for every text, every sentence count and every tag outside
  \<open>lsa\<close>, \<open>lex\<close>, \<open>luhn\<close>, \<open>textrank\<close>, \<open>sumy_summarizer\<close> raises and returns no
  summary, so it never falls back on some strategy. The exception is the one raised by
  building the parser if that fails, and otherwise the \<open>UnboundLocalError\<close> for the
  unassigned variable \<open>summarizer\<close>.
\<close>

theorem unknown_tag_fails:
  assumes "summarizer_type \<notin> {''lsa'', ''lex'', ''luhn'', ''textrank''}"
  shows "sumy_summarizer E text summarizer_type n =
     Inl (case from_string E text of Inl e \<Rightarrow> e | Inr p \<Rightarrow> UnboundLocalError ''summarizer'')"
  using assms by (intro sumy_summarizer_unassigned select_summarizer_unknown)

theorem unknown_tag_fails_witness:
  "''bart'' \<notin> {''lsa'', ''lex'', ''luhn'', ''textrank''} \<and>
   sumy_summarizer sample_env ''One two. Three four.'' ''bart'' 3
     = Inl (UnboundLocalError ''summarizer'')"
proof -
  have h: "''bart'' \<notin> {''lsa'', ''lex'', ''luhn'', ''textrank''}" by simp
  from unknown_tag_fails [OF h, of sample_env "''One two. Three four.''" 3] h
  show ?thesis by (simp add: sample_env_def)
qed

subsection \<open>What a generation renders\<close>

text \<open>
  Claim C3. A run should show either the summary with its statistics or only an error.
  With the pasted text of one blank, the option \<open>Extractive (LSA)\<close> and the button
  pressed, the summarizer returns the empty summary, the run renders the heading and the
  summary, and then the statistics divide by the zero word count: the error is rendered
  after the summary, in place of the statistics.
\<close>

theorem partial_result_shown:
  "main sample_env (sample_ui ''Text'' '' '' [] ''Extractive (LSA)'' 5 True) =
     [SetPageConfig, Title, Markdown, Radio [''Text'', ''URL''],
      TextArea ''Paste your article text here:'' '' '',
      Subheader SummarizationOptions, Columns 2, Selectbox summary_types, Slider 1 10 5,
      Button ''Generate Summary'', Spinner ''Generating summary...'',
      Call_sumy_summarizer '' '' ''lsa'' 5, Subheader ExtractiveSummary, Write [],
      Error ''Error: division by zero'']"
  by code_simp

subsection \<open>Rounding to doubles\<close>

lemma pow2_powi: "pow2 k = 2 powi k"
  by (simp add: pow2_def power_int_def inverse_eq_divide power_one_over)

lemma pow2_pos: "0 < pow2 k"
  by (simp add: pow2_def)

lemma pow2_add: "pow2 (a + b) = pow2 a * pow2 b"
  by (simp add: pow2_powi power_int_add)

lemma round_even_err: "\<bar>of_int (round_even y) - y\<bar> \<le> 1 / 2"
proof -
  have "of_int \<lfloor>y\<rfloor> \<le> y" "y < of_int \<lfloor>y\<rfloor> + 1" by linarith+
  then show ?thesis
    by (auto simp add: round_even_def Let_def)
qed

lemma ilog2_lower:
  assumes "0 < x"
  shows "pow2 (ilog2 x) \<le> x"
proof -
  obtain p q where pq: "quotient_of x = (p, q)" by (cases "quotient_of x")
  have q: "0 < q" using pq by (rule quotient_of_denom_pos)
  have x: "x = of_int p / of_int q" using pq by (rule quotient_of_div)
  have p: "0 < p" using assms q x by (simp add: zero_less_divide_iff)
  define k where "k = bitlen p - bitlen q"
  show ?thesis
  proof (cases "pow2 k \<le> x")
    case True
    then show ?thesis by (simp add: ilog2_def pq k_def)
  next
    case False
    have bp: "(2::int) ^ nat (bitlen p - 1) \<le> p" using bitlen_bounds [OF p] by simp
    have bq: "q < (2::int) ^ nat (bitlen q)" using bitlen_bounds [OF q] by simp
    have bp1: "1 \<le> bitlen p" using p by (auto simp: bitlen_alt_def)
    have bq0: "0 \<le> bitlen q" by (rule bitlen_nonneg)
    have "pow2 (bitlen p - 1) \<le> of_int p"
    proof -
      have "pow2 (bitlen p - 1) = of_int (2 ^ nat (bitlen p - 1))"
        using bp1 by (simp add: pow2_def)
      also have "\<dots> \<le> of_int p" using bp by (simp only: of_int_le_iff)
      finally show ?thesis .
    qed
    moreover have "of_int q \<le> pow2 (bitlen q)"
    proof -
      have "(of_int q :: rat) \<le> of_int (2 ^ nat (bitlen q))"
        using bq by (simp only: of_int_le_iff)
      also have "\<dots> = pow2 (bitlen q)" using bq0 by (simp add: pow2_def)
      finally show ?thesis .
    qed
    moreover have "pow2 (bitlen p - 1) = pow2 (k - 1) * pow2 (bitlen q)"
      unfolding k_def pow2_add [symmetric] by simp
    ultimately have "pow2 (k - 1) * pow2 (bitlen q) \<le> of_int p" "of_int q \<le> pow2 (bitlen q)"
      by simp_all
    then have "pow2 (k - 1) * of_int q \<le> of_int p"
      using pow2_pos [of "k - 1"]
      by (meson mult_left_mono less_imp_le order_trans)
    then have "pow2 (k - 1) \<le> x"
      using q by (simp add: x pos_le_divide_eq)
    with False show ?thesis by (simp add: ilog2_def pq k_def)
  qed
qed

lemma round_mag_err:
  assumes "0 \<le> x"
  shows "\<bar>round_mag x - x\<bar> \<le> x / 2 ^ 53 + 1 / 2 ^ 1075"
proof (cases "x = 0")
  case True
  then show ?thesis by (simp add: round_mag_def)
next
  case False
  with assms have xp: "0 < x" by simp
  define k where "k = max (ilog2 x - 52) (- 1074)"
  define u where "u = pow2 k"
  have up: "0 < u" by (simp add: u_def pow2_pos)
  have r: "round_mag x = of_int (round_even (x / u)) * u"
    using False by (simp add: round_mag_def k_def u_def Let_def)
  have "round_mag x - x = (of_int (round_even (x / u)) - x / u) * u"
    using up by (simp add: r left_diff_distrib)
  then have "\<bar>round_mag x - x\<bar> = \<bar>of_int (round_even (x / u)) - x / u\<bar> * \<bar>u\<bar>"
    by (simp only: abs_mult)
  also have "\<dots> = \<bar>of_int (round_even (x / u)) - x / u\<bar> * u"
    using up by simp
  also have "\<dots> \<le> (1 / 2) * u"
    using round_even_err [of "x / u"] up by (simp add: mult_right_mono)
  finally have e: "\<bar>round_mag x - x\<bar> \<le> u / 2" by simp
  have "u \<le> pow2 (ilog2 x - 52) + pow2 (- 1074)"
    using pow2_pos [of "ilog2 x - 52"] pow2_pos [of "- 1074"]
    by (cases "ilog2 x - 52 \<le> - 1074") (simp_all add: u_def k_def max_def)
  moreover have "pow2 (ilog2 x - 52) = pow2 (ilog2 x) * pow2 (- 52)"
    using pow2_add [of "ilog2 x" "- 52"] by simp
  moreover have "pow2 (- 52) = 1 / 2 ^ 52" "pow2 (- 1074) = 1 / 2 ^ 1074"
    by (simp_all add: pow2_def)
  ultimately have "u \<le> x / 2 ^ 52 + 1 / 2 ^ 1074"
    using ilog2_lower [OF xp] by (simp add: divide_right_mono)
  with e show ?thesis by simp
qed

lemma round_even_nonneg: "0 \<le> y \<Longrightarrow> 0 \<le> round_even y"
  by (auto simp add: round_even_def Let_def)

lemma round_mag_nonneg: "0 \<le> x \<Longrightarrow> 0 \<le> round_mag x"
  using pow2_pos [of "max (ilog2 x - 52) (- 1074)"]
  by (simp add: round_mag_def Let_def round_even_nonneg)

lemma round_mag_rel:
  assumes "1 / 2 ^ 1022 \<le> x"
  shows "\<bar>round_mag x - x\<bar> \<le> x / 2 ^ 52"
proof -
  have x0: "0 \<le> x" using assms by (rule order_trans [rotated]) simp
  have "x / 2 ^ 53 + 1 / 2 ^ 1075 \<le> x / 2 ^ 52"
    using assms by (simp add: field_simps)
  with round_mag_err [OF x0] show ?thesis by linarith
qed

lemma tenths_err:
  assumes "0 \<le> m"
  shows "\<bar>of_nat (tenths m) / 10 - m\<bar> \<le> 1 / 20"
proof -
  have "0 \<le> round_even (m * 10)" using assms by (simp add: round_even_nonneg)
  then have "(of_nat (tenths m) :: rat) = of_int (round_even (m * 10))"
    by (simp add: tenths_def)
  with round_even_err [of "m * 10"] show ?thesis by (simp add: field_simps abs_le_iff)
qed

lemma double_ratio:
  assumes "0 \<le> x" and "x < 2 ^ 63" and "x = 0 \<or> 1 / 2 ^ 63 \<le> x"
  shows "round_mag x < pow2 1024 \<and> round_mag (round_mag x * 100) < pow2 1024
         \<and> 0 \<le> round_mag (round_mag x * 100)
         \<and> \<bar>round_mag (round_mag x * 100) - x * 100\<bar> \<le> x * 100 / 2 ^ 50"
proof (cases "x = 0")
  case True
  then show ?thesis by (simp add: round_mag_def pow2_pos)
next
  case False
  with assms(3) have lo: "1 / 2 ^ 63 \<le> x" by simp
  define a where "a = round_mag x"
  define b where "b = round_mag (a * 100)"
  have "(1::rat) / 2 ^ 1022 \<le> 1 / 2 ^ 63" by simp
  with lo have "1 / 2 ^ 1022 \<le> x" by (rule order_trans [rotated])
  then have ea: "\<bar>a - x\<bar> \<le> x / 2 ^ 52" unfolding a_def by (rule round_mag_rel)
  have h: "x / 2 ^ 52 \<le> x / 2" using assms(1) by (simp add: field_simps)
  have a_lo: "x / 2 \<le> a" using ea h by linarith
  have a_hi: "a \<le> 2 * x" using ea h assms(1) by linarith
  have "(1::rat) / 2 ^ 1022 \<le> 1 / 2 ^ 63 / 2 * 100" by simp
  also have "\<dots> \<le> x / 2 * 100" using lo by simp
  also have "\<dots> \<le> a * 100" using a_lo by simp
  finally have "1 / 2 ^ 1022 \<le> a * 100" .
  then have eb: "\<bar>b - a * 100\<bar> \<le> a * 100 / 2 ^ 52" unfolding b_def by (rule round_mag_rel)
  have a0: "0 \<le> a" using a_lo assms(1) by linarith
  have h': "a * 100 / 2 ^ 52 \<le> a * 100" using a0 by (simp add: field_simps)
  have b_hi: "b \<le> 400 * x" using eb h' a_hi by linarith
  have big: "(2::rat) ^ 63 * 400 < pow2 1024" by (simp add: pow2_def)
  have c0: "0 < (2::rat) ^ 63" by simp
  have a_fin: "a < pow2 1024" using a_hi assms(2) big c0 by linarith
  have b_fin: "b < pow2 1024" using b_hi assms(2) big c0 by linarith
  have b0: "0 \<le> b" unfolding b_def a_def using assms(1)
    by (intro round_mag_nonneg mult_nonneg_nonneg) simp_all
  define k where "k = x / 2 ^ 52"
  define j where "j = a * 100 / 2 ^ 52"
  have ea': "\<bar>a - x\<bar> \<le> k" using ea by (simp only: k_def)
  have eb': "\<bar>b - a * 100\<bar> \<le> j" using eb by (simp only: j_def)
  have k1: "a - x \<le> k" "x - a \<le> k" using ea' by linarith+
  have k2: "b - a * 100 \<le> j" "a * 100 - b \<le> j" using eb' by linarith+
  have "j \<le> (2 * x) * 100 / 2 ^ 52" unfolding j_def
    using a_hi by (intro divide_right_mono mult_right_mono) simp_all
  also have "\<dots> = 200 * k" by (simp add: k_def)
  finally have k3: "j \<le> 200 * k" .
  have k4: "x * 100 / 2 ^ 50 = 400 * k" by (simp add: k_def)
  have k0: "0 \<le> k" using assms(1) by (simp add: k_def)
  have "b - x * 100 \<le> 400 * k" "x * 100 - b \<le> 400 * k"
    using k0 k1 k2 k3 by linarith+
  then have "\<bar>b - x * 100\<bar> \<le> 400 * k" by linarith
  then have "\<bar>b - x * 100\<bar> \<le> x * 100 / 2 ^ 50" by (simp only: k4)
  with a_fin b_fin b0 show ?thesis by (simp add: a_def b_def)
qed

lemma round_mag_zero: "round_mag 0 = 0"
  by (simp add: round_mag_def)

lemma round_mag_one: "round_mag 1 = 1"
  by code_simp

lemma round_mag_hundred: "round_mag 100 = 100"
  by code_simp

lemma format_1f_zero: "format_1f (FloatFin False 0) = ''0.0''"
  by code_simp

lemma format_1f_hundred: "format_1f (FloatFin False 100) = ''100.0''"
  by code_simp

text \<open>
  The ratio of two word counts below \<open>2 ^ 63\<close>: neither operation leaves the finite
  doubles, and the two roundings together move the result by at most \<open>2 ^ -50\<close> of the
  exact value.
\<close>

lemma ratio_float:
  assumes "0 < W_o" and "W_o < 2 ^ 63" and "0 \<le> W_s" and "W_s < 2 ^ 63"
    and "x = \<bar>of_int (W_o - W_s)\<bar> / \<bar>of_int W_o\<bar>"
    and "m = round_mag (round_mag x * 100)"
  shows "reduction_ratio W_o W_s = Inr (FloatFin (W_o < W_s) m)"
    and "0 \<le> m"
    and "\<bar>m - x * 100\<bar> \<le> x * 100 / 2 ^ 50"
proof -
  have d: "\<bar>W_o - W_s\<bar> < 2 ^ 63" using assms(1-4) by linarith
  have x0: "0 \<le> x" by (simp add: assms(5))
  have o1: "(1::rat) \<le> of_int W_o" using assms(1) by simp
  have xd: "x \<le> of_int \<bar>W_o - W_s\<bar>"
  proof -
    have "of_int \<bar>W_o - W_s\<bar> / of_int W_o \<le> (of_int \<bar>W_o - W_s\<bar> :: rat) / 1"
      using o1 by (intro divide_left_mono) simp_all
    then show ?thesis using assms(1) by (simp add: assms(5))
  qed
  have "(of_int \<bar>W_o - W_s\<bar> :: rat) < of_int (2 ^ 63)"
    using d by (simp only: of_int_less_iff)
  with xd have x1: "x < 2 ^ 63" by simp
  have x2: "x = 0 \<or> 1 / 2 ^ 63 \<le> x"
  proof (cases "W_o = W_s")
    case True
    then show ?thesis by (simp add: assms(5))
  next
    case False
    then have "1 \<le> \<bar>W_o - W_s\<bar>" by simp
    then have n1: "(1::rat) \<le> of_int \<bar>W_o - W_s\<bar>" by (simp only: of_int_1_le_iff)
    have "(of_int W_o :: rat) < of_int (2 ^ 63)"
      using assms(2) by (simp only: of_int_less_iff)
    then have o2: "(of_int W_o :: rat) \<le> 2 ^ 63" by simp
    have "(1::rat) / 2 ^ 63 \<le> 1 / of_int W_o"
      using o1 o2 by (intro divide_left_mono) simp_all
    also have "\<dots> \<le> of_int \<bar>W_o - W_s\<bar> / of_int W_o"
      using n1 o1 by (intro divide_right_mono) simp_all
    also have "\<dots> = x" using assms(1) by (simp add: assms(5))
    finally show ?thesis by simp
  qed
  from double_ratio [OF x0 x1 x2]
  have f1: "\<not> pow2 1024 \<le> round_mag x" and f2: "\<not> pow2 1024 \<le> m"
    and m0: "0 \<le> m" and b: "\<bar>m - x * 100\<bar> \<le> x * 100 / 2 ^ 50"
    by (simp_all add: assms(6) not_le)
  have q: "true_divide (W_o - W_s) W_o = Inr (FloatFin (W_o < W_s) (round_mag x))"
    using assms(1) f1 by (simp add: true_divide_def assms(5) Let_def)
  show "reduction_ratio W_o W_s = Inr (FloatFin (W_o < W_s) m)"
    using f2 by (simp add: reduction_ratio_def q assms(6) Let_def)
  show "0 \<le> m" by (rule m0)
  show "\<bar>m - x * 100\<bar> \<le> x * 100 / 2 ^ 50" by (rule b)
qed

lemma abs_chain:
  fixes a b c d e :: rat
  assumes "\<bar>a - b\<bar> \<le> d" and "\<bar>b - c\<bar> \<le> e"
  shows "\<bar>a - c\<bar> \<le> d + e"
  using assms unfolding abs_le_iff by linarith

lemma signed_bound:
  fixes V m x c Ex :: rat
  assumes t': "\<bar>V - m\<bar> \<le> 1 / 20" and b': "\<bar>m - x * 100\<bar> \<le> c" and x0: "0 \<le> x"
    and ex: "Ex = (if neg then - 1 else 1) * (x * 100)"
  shows "\<bar>(if neg then - 1 else 1) * V - Ex\<bar> \<le> 1 / 20 + c" and "\<bar>Ex\<bar> = x * 100"
proof -
  have k: "\<bar>V - x * 100\<bar> \<le> 1 / 20 + c" using t' b' by (rule abs_chain)
  have "\<bar>(if neg then - 1 else 1) * V - Ex\<bar> = \<bar>V - x * 100\<bar>"
  proof (cases neg)
    case True
    then have "(if neg then - 1 else 1) * V - Ex = - (V - x * 100)" by (simp add: ex)
    then show ?thesis by (simp only: abs_minus)
  next
    case False
    then have "(if neg then - 1 else 1) * V - Ex = V - x * 100" by (simp add: ex)
    then show ?thesis by simp
  qed
  with k show "\<bar>(if neg then - 1 else 1) * V - Ex\<bar> \<le> 1 / 20 + c" by simp
  show "\<bar>Ex\<bar> = x * 100" using x0 by (cases neg) (simp_all add: ex)
qed

lemma near_hundred:
  fixes V E r :: rat
  assumes "\<bar>V - E\<bar> \<le> 1 / 20 + \<bar>E\<bar> / 2 ^ 50" and "E = 100 - 100 * r"
    and "0 \<le> r" and "r \<le> 1"
  shows "\<bar>V - 100\<bar> \<le> 100 * r + 1 / 20 + 100 / 2 ^ 50"
proof -
  have e: "\<bar>E\<bar> \<le> 100" using assms(2-4) by simp
  then have "\<bar>E\<bar> / 2 ^ 50 \<le> 100 / 2 ^ 50" by (simp add: divide_right_mono)
  with assms(1) have a: "\<bar>V - E\<bar> \<le> 1 / 20 + 100 / 2 ^ 50" by linarith
  have b: "\<bar>E - 100\<bar> \<le> 100 * r" using assms(2,3) by simp
  have "\<bar>V - 100\<bar> \<le> (1 / 20 + 100 / 2 ^ 50) + 100 * r"
    using a b unfolding abs_le_iff by linarith
  then show ?thesis by simp
qed

lemma ratio_as_share:
  fixes a b :: int
  assumes "0 < a"
  shows "(of_int (a - b) / of_int a * 100 :: rat) = 100 - 100 * (of_int b / of_int a)"
  using assms by (simp add: field_simps)

subsection \<open>The displayed reduction\<close>

text \<open>
  Claim C4, as stated: the displayed percentage equals \<open>(W_o - W_s) / W_o * 100\<close>. With
  three words in the text and two in the summary the run displays \<open>33.3\<close>, which is not
  \<open>100 / 3\<close>; and with 100 and 71 words the float computed at line 110 is the double
  below 29, not 29.
\<close>

theorem reduction_not_exact:
  "main sample_env (sample_ui ''Text'' ''a b. c'' [] ''Extractive (LSA)'' 1 True) =
     [SetPageConfig, Title, Markdown, Radio [''Text'', ''URL''],
      TextArea ''Paste your article text here:'' ''a b. c'',
      Subheader SummarizationOptions, Columns 2, Selectbox summary_types, Slider 1 10 5,
      Button ''Generate Summary'', Spinner ''Generating summary...'',
      Call_sumy_summarizer ''a b. c'' ''lsa'' 1, Subheader ExtractiveSummary,
      Write ''a b'', Success 3 2 ''33.3'' (1 / 2)] \<and>
   (333 / 10 :: rat) \<noteq> of_int (3 - 2) / of_int 3 * 100 \<and>
   reduction_ratio 100 71 = Inr (FloatFin False (8162774324609023 / 281474976710656)) \<and>
   (8162774324609023 / 281474976710656 :: rat) \<noteq> of_int (100 - 71) / of_int 100 * 100"
proof -
  have a: "main sample_env (sample_ui ''Text'' ''a b. c'' [] ''Extractive (LSA)'' 1 True) =
     [SetPageConfig, Title, Markdown, Radio [''Text'', ''URL''],
      TextArea ''Paste your article text here:'' ''a b. c'',
      Subheader SummarizationOptions, Columns 2, Selectbox summary_types, Slider 1 10 5,
      Button ''Generate Summary'', Spinner ''Generating summary...'',
      Call_sumy_summarizer ''a b. c'' ''lsa'' 1, Subheader ExtractiveSummary,
      Write ''a b'', Success 3 2 ''33.3'' (1 / 2)]"
    by code_simp
  have b: "reduction_ratio 100 71 = Inr (FloatFin False (8162774324609023 / 281474976710656))"
    by code_simp
  show ?thesis using a b by simp
qed

text \<open>
  Claim C4, amended. In a generation whose summarizer succeeds, whose two texts tokenize
  and whose word counts are \<open>W_o > 0\<close> and \<open>W_s\<close>, both below \<open>2 ^ 63\<close> (the most a
  Python list holds), the run ends with the summary and the statistics, and the
  percentage displayed is \<open>(W_o - W_s) / W_o * 100\<close> computed in double precision and
  printed with one decimal. The number printed differs from the exact value by at most
  \<open>0.05\<close> plus \<open>2 ^ -50\<close> of the exact value. It is printed as \<open>0.0\<close> when
  \<open>W_s = W_o\<close> and as \<open>100.0\<close> when \<open>W_s = 0\<close>, and for \<open>W_s \<le> W_o\<close> it is within
  \<open>100 * W_s / W_o + 0.05 + 100 / 2 ^ 50\<close> of 100, so it approaches 100 as \<open>W_s\<close>
  approaches 0.
\<close>

theorem reduction_displayed:
  assumes "acquire E U = (text, evs0)" and "text \<noteq> []" and "button U"
    and "summarize E text (selectbox U summary_types) (slider U 1 10 5) = (evs, Inr summary)"
    and "word_tokenize E text = Inr ow" and "word_tokenize E summary = Inr sw"
    and "W_o = int (length ow)" and "W_s = int (length sw)"
    and "0 < W_o" and "W_o < 2 ^ 63" and "W_s < 2 ^ 63"
  shows "\<exists>m. reduction_ratio W_o W_s = Inr (FloatFin (W_o < W_s) m)
           \<and> main E U =
               page_head @ evs0 @
               [Subheader SummarizationOptions, Columns 2, Selectbox summary_types,
                Slider 1 10 5, Button ''Generate Summary'', Spinner ''Generating summary...''] @
               evs @
               [Write summary,
                Success W_o W_s (format_1f (FloatFin (W_o < W_s) m))
                  (time_end E - time_start E)]
           \<and> \<bar>(if W_o < W_s then - 1 else 1) * (of_nat (tenths m) / 10 :: rat)
                - of_int (W_o - W_s) / of_int W_o * 100\<bar>
               \<le> 1 / 20 + \<bar>of_int (W_o - W_s) / of_int W_o * 100\<bar> / 2 ^ 50
           \<and> (W_s = W_o \<longrightarrow> format_1f (FloatFin (W_o < W_s) m) = ''0.0'')
           \<and> (W_s = 0 \<longrightarrow> format_1f (FloatFin (W_o < W_s) m) = ''100.0'')
           \<and> (W_s \<le> W_o \<longrightarrow>
                \<bar>of_nat (tenths m) / 10 - 100 :: rat\<bar>
                  \<le> 100 * (of_int W_s / of_int W_o) + 1 / 20 + 100 / 2 ^ 50)"
proof -
  define x :: rat where "x = \<bar>of_int (W_o - W_s)\<bar> / \<bar>of_int W_o\<bar>"
  define m where "m = round_mag (round_mag x * 100)"
  have s0: "0 \<le> W_s" using assms(8) by simp
  note rf = ratio_float [OF assms(9) assms(10) s0 assms(11) x_def m_def]
  have r: "reduction_ratio W_o W_s = Inr (FloatFin (W_o < W_s) m)" by (rule rf(1))
  have st: "stats E text summary =
              ([Write summary,
                Success W_o W_s (format_1f (FloatFin (W_o < W_s) m))
                  (time_end E - time_start E)], Inr ())"
    using assms(5-8) r by (simp add: stats_def)
  have g: "generate E text (selectbox U summary_types) (slider U 1 10 5) =
             evs @ [Write summary,
                    Success W_o W_s (format_1f (FloatFin (W_o < W_s) m))
                      (time_end E - time_start E)]"
    using assms(4) st by (simp add: generate_def)
  have mn: "main E U =
               page_head @ evs0 @
               [Subheader SummarizationOptions, Columns 2, Selectbox summary_types,
                Slider 1 10 5, Button ''Generate Summary'', Spinner ''Generating summary...''] @
               evs @
               [Write summary,
                Success W_o W_s (format_1f (FloatFin (W_o < W_s) m))
                  (time_end E - time_start E)]"
    using assms(1-3) g by (simp add: main_def options_def)
  have t: "\<bar>of_nat (tenths m) / 10 - m\<bar> \<le> 1 / 20" using rf(2) by (rule tenths_err)
  have x0: "0 \<le> x" by (simp add: x_def)
  define Ex :: rat where "Ex = of_int (W_o - W_s) / of_int W_o * 100"
  define V :: rat where "V = of_nat (tenths m) / 10"
  define c :: rat where "c = x * 100 / 2 ^ 50"
  have c0: "0 \<le> c" using x0 by (simp add: c_def)
  have t': "\<bar>V - m\<bar> \<le> 1 / 20" using t by (simp only: V_def)
  have b': "\<bar>m - x * 100\<bar> \<le> c" using rf(3) by (simp only: c_def)
  have ex: "Ex = (if W_o < W_s then - 1 else 1) * (x * 100)"
    using assms(9) by (simp add: Ex_def x_def abs_if)
  note sb = signed_bound [OF t' b' x0 ex]
  have sgb: "\<bar>(if W_o < W_s then - 1 else 1) * V - Ex\<bar> \<le> 1 / 20 + \<bar>Ex\<bar> / 2 ^ 50"
    using sb(1) by (simp only: sb(2) c_def)
  have "W_s \<le> W_o \<longrightarrow> \<bar>V - 100\<bar> \<le> 100 * (of_int W_s / of_int W_o) + 1 / 20 + 100 / 2 ^ 50"
  proof
    assume le: "W_s \<le> W_o"
    have b1: "\<bar>V - Ex\<bar> \<le> 1 / 20 + \<bar>Ex\<bar> / 2 ^ 50" using sgb le by simp
    have e1: "Ex = 100 - 100 * (of_int W_s / of_int W_o)"
      unfolding Ex_def using assms(9) by (rule ratio_as_share)
    have r0: "(0::rat) \<le> of_int W_s / of_int W_o" using s0 assms(9) by simp
    have r1: "of_int W_s / of_int W_o \<le> (1::rat)" using le assms(9) by simp
    show "\<bar>V - 100\<bar> \<le> 100 * (of_int W_s / of_int W_o) + 1 / 20 + 100 / 2 ^ 50"
      using b1 e1 r0 r1 by (rule near_hundred)
  qed
  then have nh: "W_s \<le> W_o \<longrightarrow>
                \<bar>of_nat (tenths m) / 10 - 100 :: rat\<bar>
                  \<le> 100 * (of_int W_s / of_int W_o) + 1 / 20 + 100 / 2 ^ 50"
    by (simp only: V_def)
  from sgb have bd: "\<bar>(if W_o < W_s then - 1 else 1) * (of_nat (tenths m) / 10 :: rat)
                - of_int (W_o - W_s) / of_int W_o * 100\<bar>
               \<le> 1 / 20 + \<bar>of_int (W_o - W_s) / of_int W_o * 100\<bar> / 2 ^ 50"
    by (simp only: Ex_def V_def)
  have z: "W_s = W_o \<longrightarrow> format_1f (FloatFin (W_o < W_s) m) = ''0.0''"
  proof
    assume e: "W_s = W_o"
    then have "x = 0" by (simp add: x_def)
    then have "m = 0" by (simp add: m_def round_mag_zero)
    with e show "format_1f (FloatFin (W_o < W_s) m) = ''0.0''"
      by (simp only: format_1f_zero less_irrefl)
  qed
  have h: "W_s = 0 \<longrightarrow> format_1f (FloatFin (W_o < W_s) m) = ''100.0''"
  proof
    assume e: "W_s = 0"
    then have "x = 1" using assms(9) by (simp add: x_def)
    then have "m = 100" by (simp add: m_def round_mag_one round_mag_hundred)
    moreover have "\<not> W_o < W_s" using e assms(9) by simp
    ultimately show "format_1f (FloatFin (W_o < W_s) m) = ''100.0''"
      by (simp only: format_1f_hundred)
  qed
  from r mn bd z h nh show ?thesis by blast
qed

theorem reduction_displayed_witness:
  "acquire sample_env (sample_ui ''Text'' ''a b. c d e'' [] ''Extractive (LSA)'' 1 True)
     = (''a b. c d e'', [TextArea ''Paste your article text here:'' ''a b. c d e'']) \<and>
   word_tokenize sample_env ''a b. c d e'' = Inr [''a'', ''b.'', ''c'', ''d'', ''e''] \<and>
   word_tokenize sample_env ''a b'' = Inr [''a'', ''b''] \<and>
   reduction_ratio 5 2 = Inr (FloatFin False 60) \<and>
   main sample_env (sample_ui ''Text'' ''a b. c d e'' [] ''Extractive (LSA)'' 1 True) =
     [SetPageConfig, Title, Markdown, Radio [''Text'', ''URL''],
      TextArea ''Paste your article text here:'' ''a b. c d e'',
      Subheader SummarizationOptions, Columns 2, Selectbox summary_types, Slider 1 10 5,
      Button ''Generate Summary'', Spinner ''Generating summary...'',
      Call_sumy_summarizer ''a b. c d e'' ''lsa'' 1, Subheader ExtractiveSummary,
      Write ''a b'', Success 5 2 ''60.0'' (1 / 2)]"
proof -
  let ?U = "sample_ui ''Text'' ''a b. c d e'' [] ''Extractive (LSA)'' 1 True"
  have h1: "acquire sample_env ?U
     = (''a b. c d e'', [TextArea ''Paste your article text here:'' ''a b. c d e''])"
    by (simp add: acquire_def sample_ui_def)
  have h2: "''a b. c d e'' \<noteq> []" by simp
  have h3: "button ?U" by (simp add: sample_ui_def)
  have h4: "summarize sample_env ''a b. c d e'' (selectbox ?U summary_types) (slider ?U 1 10 5) =
     ([Call_sumy_summarizer ''a b. c d e'' ''lsa'' 1, Subheader ExtractiveSummary], Inr ''a b'')"
    by code_simp
  have h5: "word_tokenize sample_env ''a b. c d e'' = Inr [''a'', ''b.'', ''c'', ''d'', ''e'']"
    by code_simp
  have h6: "word_tokenize sample_env ''a b'' = Inr [''a'', ''b'']"
    by code_simp
  have h7: "(5::int) = int (length [''a'', ''b.'', ''c'', ''d'', ''e''])" by simp
  have h8: "(2::int) = int (length [''a'', ''b''])" by simp
  have h9: "(0::int) < 5" "(5::int) < 2 ^ 63" "(2::int) < 2 ^ 63" by simp_all
  have r: "reduction_ratio 5 2 = Inr (FloatFin False 60)" by code_simp
  have f: "format_1f (FloatFin False 60) = ''60.0''" by code_simp
  from reduction_displayed [OF h1 h2 h3 h4 h5 h6 h7 h8 h9]
  obtain m where "reduction_ratio 5 2 = Inr (FloatFin ((5::int) < 2) m)"
    and mn: "main sample_env ?U =
               page_head @ [TextArea ''Paste your article text here:'' ''a b. c d e''] @
               [Subheader SummarizationOptions, Columns 2, Selectbox summary_types,
                Slider 1 10 5, Button ''Generate Summary'', Spinner ''Generating summary...''] @
               [Call_sumy_summarizer ''a b. c d e'' ''lsa'' 1, Subheader ExtractiveSummary] @
               [Write ''a b'',
                Success 5 2 (format_1f (FloatFin ((5::int) < 2) m))
                  (time_end sample_env - time_start sample_env)]"
    by blast
  with r have "m = 60" by simp
  with mn f have "main sample_env ?U =
     [SetPageConfig, Title, Markdown, Radio [''Text'', ''URL''],
      TextArea ''Paste your article text here:'' ''a b. c d e'',
      Subheader SummarizationOptions, Columns 2, Selectbox summary_types, Slider 1 10 5,
      Button ''Generate Summary'', Spinner ''Generating summary...'',
      Call_sumy_summarizer ''a b. c d e'' ''lsa'' 1, Subheader ExtractiveSummary,
      Write ''a b'', Success 5 2 ''60.0'' (1 / 2)]"
    by (simp add: page_head_def sample_env_def)
  with h1 h5 h6 r show ?thesis by simp
qed

subsection \<open>Runs without a text\<close>

lemma acquire_events_plain:
  "ev \<in> set (snd (acquire E U)) \<Longrightarrow> \<not> is_option_widget ev \<and> \<not> is_summarizer_call ev"
  by (auto simp add: acquire_def Let_def split: if_splits sum.splits)

lemma page_head_plain:
  "ev \<in> set page_head \<Longrightarrow> \<not> is_option_widget ev \<and> \<not> is_summarizer_call ev"
  by (auto simp add: page_head_def)

text \<open>
  Claim C5. When the URL input is chosen, a URL is given and fetching it raises \<open>e\<close>,
  the run renders \<open>Error: \<close> followed by \<open>str(e)\<close> and ends there: it calls neither
  summarizer.
\<close>

theorem fetch_failure_no_summarizer:
  assumes "radio U \<noteq> ''Text''" and "text_input U \<noteq> []"
    and "get_article_text E (text_input U) = Inl e"
  shows "main E U =
           page_head @
           [TextInput ''Enter article URL:'', Spinner ''Fetching article...'',
            Call_get_article_text (text_input U), Error (''Error: '' @ exc_str e)]
         \<and> (\<forall>ev \<in> set (main E U). \<not> is_summarizer_call ev)"
proof -
  have a: "acquire E U =
     ([], [TextInput ''Enter article URL:'', Spinner ''Fetching article...'',
           Call_get_article_text (text_input U), Error (''Error: '' @ exc_str e)])"
    using assms by (simp add: acquire_def)
  then have m: "main E U =
           page_head @
           [TextInput ''Enter article URL:'', Spinner ''Fetching article...'',
            Call_get_article_text (text_input U), Error (''Error: '' @ exc_str e)]"
    by (simp add: main_def options_def)
  then have "\<forall>ev \<in> set (main E U). \<not> is_summarizer_call ev"
    by (simp add: page_head_def)
  with m show ?thesis by blast
qed

theorem fetch_failure_no_summarizer_witness:
  "radio (sample_ui ''URL'' [] ''not a url'' ''Extractive (LSA)'' 5 True) \<noteq> ''Text'' \<and>
   text_input (sample_ui ''URL'' [] ''not a url'' ''Extractive (LSA)'' 5 True) \<noteq> [] \<and>
   get_article_text sample_env ''not a url''
     = Inl (PyExc ''ArticleException'' ''download failed on URL not a url'') \<and>
   main sample_env (sample_ui ''URL'' [] ''not a url'' ''Extractive (LSA)'' 5 True) =
     [SetPageConfig, Title, Markdown, Radio [''Text'', ''URL''],
      TextInput ''Enter article URL:'', Spinner ''Fetching article...'',
      Call_get_article_text ''not a url'',
      Error ''Error: download failed on URL not a url'']"
proof -
  let ?U = "sample_ui ''URL'' [] ''not a url'' ''Extractive (LSA)'' 5 True"
  have h1: "radio ?U \<noteq> ''Text''" by (simp add: sample_ui_def)
  have h2: "text_input ?U \<noteq> []" by (simp add: sample_ui_def)
  have h3: "get_article_text sample_env (text_input ?U)
     = Inl (PyExc ''ArticleException'' ''download failed on URL not a url'')"
    by (simp add: sample_ui_def get_article_text_def sample_env_def)
  from fetch_failure_no_summarizer [OF h1 h2 h3] h1 h2 h3
  show ?thesis by (simp add: sample_ui_def page_head_def)
qed

text \<open>
  Claim C7. When the input text of a run is empty, the run renders nothing beyond the page
  head and the input widgets: no summarization options, no slider, no button, and it
  calls no summarizer. With the text input chosen and nothing pasted, the page is the head
  and the empty text area.
\<close>

theorem empty_text_not_actionable:
  assumes "fst (acquire E U) = []"
  shows "main E U = page_head @ snd (acquire E U)
         \<and> (\<forall>ev \<in> set (main E U). \<not> is_option_widget ev \<and> \<not> is_summarizer_call ev)
         \<and> (radio U = ''Text'' \<longrightarrow>
              main E U = page_head @ [TextArea ''Paste your article text here:'' []])"
proof -
  have m: "main E U = page_head @ snd (acquire E U)"
    using assms by (cases "acquire E U") (simp add: main_def options_def)
  have p: "\<forall>ev \<in> set (main E U). \<not> is_option_widget ev \<and> \<not> is_summarizer_call ev"
    using m acquire_events_plain [of _ E U] page_head_plain by auto
  have t: "radio U = ''Text'' \<longrightarrow>
              main E U = page_head @ [TextArea ''Paste your article text here:'' []]"
  proof
    assume r: "radio U = ''Text''"
    then have "acquire E U = (text_area U, [TextArea ''Paste your article text here:'' (text_area U)])"
      by (simp add: acquire_def)
    with assms m show "main E U = page_head @ [TextArea ''Paste your article text here:'' []]"
      by simp
  qed
  from m p t show ?thesis by blast
qed

theorem empty_text_not_actionable_witness:
  "fst (acquire sample_env (sample_ui ''Text'' [] [] ''Extractive (LSA)'' 5 True)) = [] \<and>
   main sample_env (sample_ui ''Text'' [] [] ''Extractive (LSA)'' 5 True) =
     [SetPageConfig, Title, Markdown, Radio [''Text'', ''URL''],
      TextArea ''Paste your article text here:'' []]"
proof -
  let ?U = "sample_ui ''Text'' [] [] ''Extractive (LSA)'' 5 True"
  have h: "fst (acquire sample_env ?U) = []"
    by (simp add: acquire_def sample_ui_def)
  have r: "radio ?U = ''Text''" by (simp add: sample_ui_def)
  from empty_text_not_actionable [OF h, THEN conjunct2, THEN conjunct2] r h
  show ?thesis by (simp add: page_head_def)
qed

subsection \<open>The sentence count\<close>

lemma summarize_sumy_count:
  "Call_sumy_summarizer t m n \<in> set (fst (summarize E text summary_type len)) \<Longrightarrow> n = len"
  by (auto simp add: summarize_def split: if_splits sum.splits)

lemma stats_no_sumy:
  "Call_sumy_summarizer t m n \<notin> set (fst (stats E text summary))"
  by (auto simp add: stats_def Let_def split: sum.splits)

lemma generate_sumy_count:
  assumes "Call_sumy_summarizer t m n \<in> set (generate E tx st len)"
  shows "n = len"
proof (cases "summarize E tx st len")
  case (Pair evs r)
  have a: "Call_sumy_summarizer t m n \<in> set evs \<Longrightarrow> n = len"
    using summarize_sumy_count [of t m n E tx st len] Pair by simp
  show ?thesis
  proof (cases r)
    case (Inl e)
    with Pair assms a show ?thesis by (auto simp add: generate_def)
  next
    case (Inr summary)
    obtain evs' r' where s: "stats E tx summary = (evs', r')"
      by (cases "stats E tx summary")
    have b: "Call_sumy_summarizer t m n \<notin> set evs'"
      using stats_no_sumy [of t m n E tx summary] s by simp
    from Pair Inr s assms a b show ?thesis
      by (cases r') (auto simp add: generate_def)
  qed
qed

lemma options_sumy_count:
  "Call_sumy_summarizer t m n \<in> set (options E U text) \<Longrightarrow> n = slider U 1 10 5"
  using generate_sumy_count [of t m n E]
  by (auto simp add: options_def Let_def split: if_splits)

lemma acquire_no_sumy:
  "Call_sumy_summarizer t m n \<notin> set (snd (acquire E U))"
  using acquire_events_plain [of "Call_sumy_summarizer t m n" E U] by auto

text \<open>
  Claim C8. The slider is created with the range 1 to 10 and the start value 5, so the
  length it returns is between 1 and 10, and every call of \<open>sumy_summarizer\<close> in the run
  receives exactly that length as its sentence count.
\<close>

theorem sentence_count_in_bounds:
  assumes "slider_contract U"
  shows "1 \<le> slider U 1 10 5 \<and> slider U 1 10 5 \<le> 10
         \<and> (\<forall>t m n. Call_sumy_summarizer t m n \<in> set (main E U)
               \<longrightarrow> n = slider U 1 10 5 \<and> 1 \<le> n \<and> n \<le> 10)"
proof -
  have b: "1 \<le> slider U 1 10 5 \<and> slider U 1 10 5 \<le> 10"
    using assms by (simp add: slider_contract_def)
  have c: "n = slider U 1 10 5" if "Call_sumy_summarizer t m n \<in> set (main E U)" for t m n
  proof -
    from that have "Call_sumy_summarizer t m n \<in> set (options E U (fst (acquire E U)))"
      using acquire_no_sumy [of t m n E U]
      by (cases "acquire E U") (auto simp add: main_def page_head_def)
    then show ?thesis by (rule options_sumy_count)
  qed
  from b c show ?thesis by blast
qed

theorem sentence_count_in_bounds_witness:
  "slider_contract (sample_ui ''Text'' ''One two. Three four.'' [] ''Extractive (Luhn)'' 42 True) \<and>
   main sample_env (sample_ui ''Text'' ''One two. Three four.'' [] ''Extractive (Luhn)'' 42 True)
     ! 11 = Call_sumy_summarizer ''One two. Three four.'' ''luhn'' 10 \<and>
   slider (sample_ui ''Text'' ''One two. Three four.'' [] ''Extractive (Luhn)'' 42 True) 1 10 5 = 10"
proof -
  let ?U = "sample_ui ''Text'' ''One two. Three four.'' [] ''Extractive (Luhn)'' 42 True"
  have h: "slider_contract ?U"
    by (simp add: slider_contract_def sample_ui_def)
  have e: "main sample_env ?U ! 11 = Call_sumy_summarizer ''One two. Three four.'' ''luhn'' 10"
    by code_simp
  from sentence_count_in_bounds [OF h, of sample_env] h e
  show ?thesis by (simp add: sample_ui_def)
qed

subsection \<open>A text without words\<close>

text \<open>
  Claim C10. The test \<open>if text:\<close> lets through a text that is not empty but has no
  words. If the chosen summarizer then succeeds and the summary tokenizes, the run renders
  the summary and, after it, the error of the division by the zero word count. A text
  of three blanks is such a text.
\<close>

theorem zero_words_error_after_summary:
  assumes "acquire E U = (text, evs0)" and "text \<noteq> []" and "button U"
    and "word_tokenize E text = Inr []" and "word_tokenize E summary = Inr sw"
    and "summarize E text (selectbox U summary_types) (slider U 1 10 5) = (evs, Inr summary)"
  shows "main E U =
           page_head @ evs0 @
           [Subheader SummarizationOptions, Columns 2, Selectbox summary_types, Slider 1 10 5,
            Button ''Generate Summary'', Spinner ''Generating summary...''] @
           evs @ [Write summary, Error ''Error: division by zero'']"
proof -
  have s: "stats E text summary = ([Write summary], Inl ZeroDivisionError)"
    using assms(4,5) by (simp add: stats_def reduction_ratio_def true_divide_def)
  have g: "generate E text (selectbox U summary_types) (slider U 1 10 5) =
             evs @ [Write summary, Error ''Error: division by zero'']"
    using assms(6) s by (simp add: generate_def ZeroDivisionError_def)
  show ?thesis
    using assms(1-3) g by (simp add: main_def options_def)
qed

theorem zero_words_error_after_summary_witness:
  "acquire sample_env (sample_ui ''Text'' ''   '' [] ''Abstractive (BART)'' 3 True)
     = (''   '', [TextArea ''Paste your article text here:'' ''   '']) \<and>
   ''   '' \<noteq> [] \<and>
   word_tokenize sample_env ''   '' = Inr [] \<and>
   word_tokenize sample_env ''short'' = Inr [''short''] \<and>
   main sample_env (sample_ui ''Text'' ''   '' [] ''Abstractive (BART)'' 3 True) =
     [SetPageConfig, Title, Markdown, Radio [''Text'', ''URL''],
      TextArea ''Paste your article text here:'' ''   '',
      Subheader SummarizationOptions, Columns 2, Selectbox summary_types, Slider 1 10 5,
      Button ''Generate Summary'', Spinner ''Generating summary...'',
      Call_abstractive_summarizer ''   '' 90 30, Subheader AbstractiveSummary,
      Write ''short'', Error ''Error: division by zero'']"
proof -
  let ?U = "sample_ui ''Text'' ''   '' [] ''Abstractive (BART)'' 3 True"
  have h1: "acquire sample_env ?U = (''   '', [TextArea ''Paste your article text here:'' ''   ''])"
    by (simp add: acquire_def sample_ui_def)
  have h2: "''   '' \<noteq> []" by simp
  have h3: "button ?U" by (simp add: sample_ui_def)
  have h4: "word_tokenize sample_env ''   '' = Inr []" by code_simp
  have h5: "summarize sample_env ''   '' (selectbox ?U summary_types) (slider ?U 1 10 5) =
     ([Call_abstractive_summarizer ''   '' 90 30, Subheader AbstractiveSummary], Inr ''short'')"
    by code_simp
  have h6: "word_tokenize sample_env ''short'' = Inr [''short'']" by code_simp
  from zero_words_error_after_summary [OF h1 h2 h3 h4 h6 h5] h1 h4 h6
  show ?thesis by (simp add: page_head_def)
qed

end
